theory Spec2Isabelle
  imports Complex_Main
begin

section \<open>Scalars\<close>

text \<open>
  \<open>Scalar\<close> is the floating-point type of the library (\<open>double\<close>, or \<open>float\<close>). It is
  modelled by the values of IEEE 754 with exact arithmetic: \<open>Fin x\<close> is the finite number
  \<open>x\<close> (\<open>Fin 0\<close> is the zero of positive sign), \<open>NZero\<close> the zero of negative sign,
  \<open>PInf\<close> and \<open>NInf\<close> the infinities and \<open>NaN\<close> the not-a-number. The special cases
  (zeros, infinities, NaN) follow IEEE 754 and, for \<open>pow\<close>, Annex F of C99.

  The operations \<open>fadd\<close>, \<open>fmul\<close>, \<open>fdiv\<close> and \<open>fpow\<close> are exact: on finite operands
  whose mathematical result is a finite real they return that real, without rounding,
  overflow or underflow. The operations \<open>fmul_fl\<close>, \<open>fdiv_fl\<close> and \<open>fpow_fl\<close> further
  down are the same operations with the rounding of the machine made explicit.
\<close>

datatype scalar = Fin real | NZero | PInf | NInf | NaN

fun val_of :: "scalar \<Rightarrow> real" where
  "val_of (Fin x) = x"
| "val_of NZero = 0"
| "val_of PInf = 0"
| "val_of NInf = 0"
| "val_of NaN = 0"

fun signbit :: "scalar \<Rightarrow> bool" where
  "signbit (Fin x) = (x < 0)"
| "signbit NZero = True"
| "signbit PInf = False"
| "signbit NInf = True"
| "signbit NaN = False"

definition is_zero :: "scalar \<Rightarrow> bool" where
  "is_zero x = (x = Fin 0 \<or> x = NZero)"

definition is_inf :: "scalar \<Rightarrow> bool" where
  "is_inf x = (x = PInf \<or> x = NInf)"

definition zero_of :: "bool \<Rightarrow> scalar" where
  "zero_of neg = (if neg then NZero else Fin 0)"

definition inf_of :: "bool \<Rightarrow> scalar" where
  "inf_of neg = (if neg then NInf else PInf)"

text \<open>Unary minus flips the sign, also of zeros and infinities.\<close>

fun fneg :: "scalar \<Rightarrow> scalar" where
  "fneg (Fin x) = (if x = 0 then NZero else Fin (- x))"
| "fneg NZero = Fin 0"
| "fneg PInf = NInf"
| "fneg NInf = PInf"
| "fneg NaN = NaN"

text \<open>
  Addition: the sum of opposite infinities is NaN; a sum that is zero has positive sign
  unless both operands are negative zeros (round to nearest).
\<close>

definition fadd :: "scalar \<Rightarrow> scalar \<Rightarrow> scalar" where
  "fadd a b =
     (if a = NaN \<or> b = NaN then NaN
      else if is_inf a \<and> is_inf b then (if a = b then a else NaN)
      else if is_inf a then a
      else if is_inf b then b
      else if a = NZero \<and> b = NZero then NZero
      else Fin (val_of a + val_of b))"

definition fsub :: "scalar \<Rightarrow> scalar \<Rightarrow> scalar" where
  "fsub a b = fadd a (fneg b)"

text \<open>Multiplication: zero times infinity is NaN; the sign is the exclusive or of the signs.\<close>

definition fmul :: "scalar \<Rightarrow> scalar \<Rightarrow> scalar" where
  "fmul a b =
     (if a = NaN \<or> b = NaN then NaN
      else if is_inf a \<or> is_inf b then
        (if is_zero a \<or> is_zero b then NaN else inf_of (signbit a \<noteq> signbit b))
      else if is_zero a \<or> is_zero b then zero_of (signbit a \<noteq> signbit b)
      else Fin (val_of a * val_of b))"

text \<open>
  Division: \<open>0/0\<close> and \<open>inf/inf\<close> are NaN, a non-zero number over zero is an infinity,
  a finite number over an infinity is a zero.
\<close>

definition fdiv :: "scalar \<Rightarrow> scalar \<Rightarrow> scalar" where
  "fdiv a b =
     (if a = NaN \<or> b = NaN then NaN
      else if is_inf a then (if is_inf b then NaN else inf_of (signbit a \<noteq> signbit b))
      else if is_inf b then zero_of (signbit a \<noteq> signbit b)
      else if is_zero b then (if is_zero a then NaN else inf_of (signbit a \<noteq> signbit b))
      else if is_zero a then zero_of (signbit a \<noteq> signbit b)
      else Fin (val_of a / val_of b))"

text \<open>Comparisons: false as soon as an operand is NaN; the two zeros are equal.\<close>

definition flt :: "scalar \<Rightarrow> scalar \<Rightarrow> bool" where
  "flt a b =
     (if a = NaN \<or> b = NaN then False
      else if a = PInf \<or> b = NInf then False
      else if a = NInf \<or> b = PInf then True
      else val_of a < val_of b)"

definition fle :: "scalar \<Rightarrow> scalar \<Rightarrow> bool" where
  "fle a b =
     (if a = NaN \<or> b = NaN then False
      else if a = NInf \<or> b = PInf then True
      else if a = PInf \<or> b = NInf then False
      else val_of a \<le> val_of b)"

definition fge :: "scalar \<Rightarrow> scalar \<Rightarrow> bool" where
  "fge a b = fle b a"

text \<open>
  \<open>std::max(a, b)\<close> is \<open>(a < b) ? b : a\<close> and \<open>std::min(a, b)\<close> is \<open>(b < a) ? b : a\<close>:
  both return their first argument when the comparison is false, so also when an
  argument is NaN.
\<close>

definition std_max :: "scalar \<Rightarrow> scalar \<Rightarrow> scalar" where
  "std_max a b = (if flt a b then b else a)"

definition std_min :: "scalar \<Rightarrow> scalar \<Rightarrow> scalar" where
  "std_min a b = (if flt b a then b else a)"

text \<open>Whether a scalar is an odd integer (never true of an infinity or of NaN).\<close>

fun odd_int :: "scalar \<Rightarrow> bool" where
  "odd_int (Fin y) = (y = of_int \<lfloor>y\<rfloor> \<and> odd \<lfloor>y\<rfloor>)"
| "odd_int NZero = False"
| "odd_int PInf = False"
| "odd_int NInf = False"
| "odd_int NaN = False"

text \<open>
  \<open>pow(x, y)\<close> of \<open><math.h>\<close>, case by case as C99 F.9.4.4 lists them:
  \<open>pow(x, \<plusminus>0) = 1\<close> and \<open>pow(+1, y) = 1\<close> even for a NaN; a zero base gives an infinity
  for \<open>y < 0\<close> and a zero for \<open>y > 0\<close> (of the sign of the base when \<open>y\<close> is an odd
  integer); an infinite exponent gives 1 for base \<open>-1\<close>, and \<open>0\<close> or \<open>+inf\<close> as
  \<open>|x|\<close> is below or above 1; an infinite base gives a zero for \<open>y < 0\<close> and an infinity for
  \<open>y > 0\<close>; a finite negative base with a finite exponent that is no integer gives NaN.
\<close>

definition fpow :: "scalar \<Rightarrow> scalar \<Rightarrow> scalar" where
  "fpow x y =
     (if is_zero y then Fin 1
      else if x = Fin 1 then Fin 1
      else if x = NaN \<or> y = NaN then NaN
      else if is_zero x then
        (if signbit y then inf_of (signbit x \<and> odd_int y)
         else zero_of (signbit x \<and> odd_int y))
      else if is_inf y then
        (if x = Fin (- 1) then Fin 1
         else if \<bar>val_of x\<bar> < 1 \<and> \<not> is_inf x then (if y = NInf then PInf else Fin 0)
         else (if y = NInf then Fin 0 else PInf))
      else if x = PInf then (if signbit y then Fin 0 else PInf)
      else if x = NInf then
        (if signbit y then zero_of (odd_int y) else inf_of (odd_int y))
      else if 0 < val_of x then Fin (val_of x powr val_of y)
      else if val_of y = of_int \<lfloor>val_of y\<rfloor> then
        (if odd \<lfloor>val_of y\<rfloor> then Fin (- (\<bar>val_of x\<bar> powr val_of y))
         else Fin (\<bar>val_of x\<bar> powr val_of y))
      else NaN)"

section \<open>Rounding\<close>

text \<open>
  What the machine returns for a product, a quotient or a power of finite non-zero
  operands is not the exact result: it is a rounded number, an infinity when the result
  overflows, a zero when it underflows. A \<open>rounding\<close> gives that result for each of the
  three operations, as a function of the operands; nothing is assumed of it here, and a
  theorem that needs an operation to be accurate says so in its hypotheses. Where an
  operand is a zero, an infinity or NaN, and for the cases of \<open>pow\<close> that C99 fixes
  (\<open>pow(+1, y)\<close>, a negative base with an exponent that is no integer), the result is
  the one of the exact operation.
\<close>

record rounding =
  rmul :: "real \<Rightarrow> real \<Rightarrow> scalar"
  rdiv :: "real \<Rightarrow> real \<Rightarrow> scalar"
  rpow :: "real \<Rightarrow> real \<Rightarrow> scalar"

fun finite_nz :: "scalar \<Rightarrow> bool" where
  "finite_nz (Fin x) = (x \<noteq> 0)"
| "finite_nz NZero = False"
| "finite_nz PInf = False"
| "finite_nz NInf = False"
| "finite_nz NaN = False"

definition fmul_fl :: "rounding \<Rightarrow> scalar \<Rightarrow> scalar \<Rightarrow> scalar" where
  "fmul_fl R a b =
     (if finite_nz a \<and> finite_nz b then rmul R (val_of a) (val_of b) else fmul a b)"

definition fdiv_fl :: "rounding \<Rightarrow> scalar \<Rightarrow> scalar \<Rightarrow> scalar" where
  "fdiv_fl R a b =
     (if finite_nz a \<and> finite_nz b then rdiv R (val_of a) (val_of b) else fdiv a b)"

definition fpow_fl :: "rounding \<Rightarrow> scalar \<Rightarrow> scalar \<Rightarrow> scalar" where
  "fpow_fl R x y =
     (if finite_nz x \<and> finite_nz y \<and> x \<noteq> Fin 1 \<and>
         (0 < val_of x \<or> val_of y = of_int \<lfloor>val_of y\<rfloor>)
      then rpow R (val_of x) (val_of y) else fpow x y)"

text \<open>The rounding that does not round: with it the three operations are the exact ones.\<close>

definition exact :: rounding where
  "exact = \<lparr>rmul = (\<lambda>x y. Fin (x * y)),
            rdiv = (\<lambda>x y. Fin (x / y)),
            rpow = (\<lambda>x y. fpow (Fin x) (Fin y))\<rparr>"

text \<open>
  The rounding that only overflows: a result of magnitude \<open>2^1024\<close> or more, which no
  \<open>double\<close> holds, is an infinity; every other result is left as it is.
\<close>

definition overflow :: "real \<Rightarrow> scalar" where
  "overflow z = (if 2 ^ 1024 \<le> \<bar>z\<bar> then inf_of (z < 0) else Fin z)"

definition overflowing :: rounding where
  "overflowing = \<lparr>rmul = (\<lambda>x y. overflow (x * y)),
                  rdiv = (\<lambda>x y. overflow (x / y)),
                  rpow = (\<lambda>x y. overflow (val_of (fpow (Fin x) (Fin y))))\<rparr>"

section \<open>The Brooks-Corey curves\<close>

text \<open>
  \<open>brookscorey.hh\<close>. The parameter class (\<open>brookscoreyparams.hh\<close>) gives the entry
  pressure \<open>pe()\<close> and the shape parameter \<open>alpha()\<close>. Every curve is a static member
  taking the parameters by const reference.

  \<open>assert\<close> aborts the program in a build without \<open>NDEBUG\<close> (\<open>Debug\<close>) and expands to
  nothing in a build with it (\<open>Release\<close>). A failure is a value: \<open>Inl AssertionFailed\<close>.
\<close>

record Params =
  pe :: scalar
  alpha :: scalar

datatype build = Debug | Release

datatype message =
    InvalidComponentIndex int
  | InvalidPhaseIndex int
  | TraceDiffCoeffUndefined
  | DiffCoeffUndefined int int int

datatype failure = AssertionFailed | InvalidStateException message

definition assert_fails :: "build \<Rightarrow> bool \<Rightarrow> bool" where
  "assert_fails b cond = (b = Debug \<and> \<not> cond)"

definition pC :: "build \<Rightarrow> Params \<Rightarrow> scalar \<Rightarrow> failure + scalar" where
  "pC b params Swe =
     (if assert_fails b (fle (Fin 0) Swe \<and> fle Swe (Fin 1)) then Inl AssertionFailed
      else Inr (fmul (pe params) (fpow Swe (fdiv (Fin (- 1)) (alpha params)))))"

definition Sw :: "build \<Rightarrow> Params \<Rightarrow> scalar \<Rightarrow> failure + scalar" where
  "Sw b params pc =
     (if assert_fails b (fge pc (Fin 0)) then Inl AssertionFailed
      else
        (let tmp = fpow (fdiv pc (pe params)) (fneg (alpha params))
         in Inr (std_min (std_max tmp (Fin 0)) (Fin 1))))"

definition dpC_dSw :: "build \<Rightarrow> Params \<Rightarrow> scalar \<Rightarrow> failure + scalar" where
  "dpC_dSw b params Swe =
     (if assert_fails b (fle (Fin 0) Swe \<and> fle Swe (Fin 1)) then Inl AssertionFailed
      else Inr (fmul (fdiv (fneg (pe params)) (alpha params))
                     (fpow Swe (fsub (fdiv (Fin (- 1)) (alpha params)) (Fin 1)))))"

definition dSw_dpC :: "build \<Rightarrow> Params \<Rightarrow> scalar \<Rightarrow> failure + scalar" where
  "dSw_dpC b params pc =
     (if assert_fails b (fge pc (Fin 0)) then Inl AssertionFailed
      else Inr (fmul (fdiv (fneg (alpha params)) (pe params))
                     (fpow (fdiv pc (pe params)) (fsub (fneg (alpha params)) (Fin 1)))))"

definition krw :: "build \<Rightarrow> Params \<Rightarrow> scalar \<Rightarrow> failure + scalar" where
  "krw b params Sw_mob =
     (if assert_fails b (fle (Fin 0) Sw_mob \<and> fle Sw_mob (Fin 1)) then Inl AssertionFailed
      else Inr (fpow Sw_mob
                  (fdiv (fadd (Fin 2) (fmul (Fin 3) (alpha params))) (alpha params))))"

definition krn :: "build \<Rightarrow> Params \<Rightarrow> scalar \<Rightarrow> failure + scalar" where
  "krn b params Sw_mob =
     (if assert_fails b (fle (Fin 0) Sw_mob \<and> fle Sw_mob (Fin 1)) then Inl AssertionFailed
      else
        (let exponent = fdiv (fadd (Fin 2) (alpha params)) (alpha params);
             tmp = fsub (Fin 1) Sw_mob
         in Inr (fmul (fmul tmp tmp) (fsub (Fin 1) (fpow Sw_mob exponent)))))"

text \<open>
  \<open>pC\<close> and \<open>Sw\<close> once more, with the rounding of their products, quotients and powers
  explicit (unary minus, the comparisons, \<open>std::min\<close> and \<open>std::max\<close> do not round).
\<close>

definition pC_fl :: "rounding \<Rightarrow> build \<Rightarrow> Params \<Rightarrow> scalar \<Rightarrow> failure + scalar" where
  "pC_fl R b params Swe =
     (if assert_fails b (fle (Fin 0) Swe \<and> fle Swe (Fin 1)) then Inl AssertionFailed
      else Inr (fmul_fl R (pe params)
                  (fpow_fl R Swe (fdiv_fl R (Fin (- 1)) (alpha params)))))"

definition Sw_fl :: "rounding \<Rightarrow> build \<Rightarrow> Params \<Rightarrow> scalar \<Rightarrow> failure + scalar" where
  "Sw_fl R b params pc =
     (if assert_fails b (fge pc (Fin 0)) then Inl AssertionFailed
      else
        (let tmp = fpow_fl R (fdiv_fl R pc (pe params)) (fneg (alpha params))
         in Inr (std_min (std_max tmp (Fin 0)) (Fin 1))))"

section \<open>The fluid system of water and nitrogen\<close>

text \<open>
  \<open>Simple_H2O_N2_System\<close>. Phase and component indices are C++ \<open>int\<close>s; no arithmetic
  is done on them. \<open>DUNE_THROW(Dune::InvalidStateException, msg)\<close> throws: the model
  returns \<open>Inl (InvalidStateException msg)\<close>, the message carrying the offending index.
\<close>

definition numComponents :: int where "numComponents = 2"
definition numPhases :: int where "numPhases = 2"

definition lPhaseIdx :: int where "lPhaseIdx = 0"
definition gPhaseIdx :: int where "gPhaseIdx = 1"

definition wPhaseIdx :: int where "wPhaseIdx = lPhaseIdx"
definition nPhaseIdx :: int where "nPhaseIdx = gPhaseIdx"

definition H2OIdx :: int where "H2OIdx = 0"
definition N2Idx :: int where "N2Idx = 1"

text \<open>
  \<open>FluidState\<close> is a template parameter. What its const accessors return is the content
  of the record: the mole and mass fractions of a component in a phase
  (\<open>moleFrac(phaseIdx, compIdx)\<close>) and the partial pressure of a component. Its
  non-const method \<open>setPartialPressure(compIdx, p)\<close> comes with the template argument:
  it is a parameter of the one function that calls it.
\<close>

record FluidState =
  moleFrac :: "int \<Rightarrow> int \<Rightarrow> scalar"
  massFrac :: "int \<Rightarrow> int \<Rightarrow> scalar"
  partialPressure :: "int \<Rightarrow> scalar"

text \<open>
  The component classes \<open>H2O\<close> (\<open>SimpleH2O\<close>), \<open>N2\<close> and \<open>IdealGas\<close> live in other
  headers; what the fluid system reads of them is a parameter of the model. The free
  function \<open>enthalpy\<close> that \<open>phaseInternalEnergy\<close> calls is declared nowhere in this
  header (the member of the class is \<open>phaseEnthalpy\<close>), so it is a parameter too.
\<close>

record Components =
  H2O_name :: string
  N2_name :: string
  H2O_molarMass :: scalar
  N2_molarMass :: scalar
  H2O_liquidDensity :: "scalar \<Rightarrow> scalar \<Rightarrow> scalar"
  H2O_liquidViscosity :: "scalar \<Rightarrow> scalar \<Rightarrow> scalar"
  N2_gasViscosity :: "scalar \<Rightarrow> scalar \<Rightarrow> scalar"
  IdealGas_R :: scalar
  enthalpy :: "int \<Rightarrow> scalar \<Rightarrow> scalar \<Rightarrow> FluidState \<Rightarrow> failure + scalar"

text \<open>
  Modelled from the spec: \<open>IdealGas::density(avgMolarMass, temperature, pressure)\<close> of
  \<open>dumux/new_material/idealgas.hh\<close>, which is not among the sources. The spec gives the
  ideal-gas phase density as \<open>P*M/(R*T)\<close>.
\<close>

definition IdealGas_density :: "Components \<Rightarrow> scalar \<Rightarrow> scalar \<Rightarrow> scalar \<Rightarrow> scalar" where
  "IdealGas_density c avgMolarMass temperature pressure =
     fdiv (fmul pressure avgMolarMass) (fmul (IdealGas_R c) temperature)"

definition componentName :: "Components \<Rightarrow> int \<Rightarrow> failure + string" where
  "componentName c compIdx =
     (if compIdx = H2OIdx then Inr (H2O_name c)
      else if compIdx = N2Idx then Inr (N2_name c)
      else Inl (InvalidStateException (InvalidComponentIndex compIdx)))"

definition molarMass :: "Components \<Rightarrow> int \<Rightarrow> failure + scalar" where
  "molarMass c compIdx =
     (if compIdx = H2OIdx then Inr (H2O_molarMass c)
      else if compIdx = N2Idx then Inr (N2_molarMass c)
      else Inl (InvalidStateException (InvalidComponentIndex compIdx)))"

text \<open>
  \<open>computePartialPressures\<close> returns nothing and takes the fluid state by non-const
  reference: it calls \<open>setPartialPressure\<close> on it twice, the second call reading the mole
  fraction from the state the first call left. The model returns the new state. The two
  products are the rounded ones.
\<close>

definition computePartialPressures ::
  "rounding \<Rightarrow> (int \<Rightarrow> scalar \<Rightarrow> FluidState \<Rightarrow> FluidState) \<Rightarrow>
     scalar \<Rightarrow> scalar \<Rightarrow> FluidState \<Rightarrow> FluidState"
  where
  "computePartialPressures R setPartialPressure temperature pg fluidState =
     (let fs1 = setPartialPressure H2OIdx
                  (fmul_fl R pg (moleFrac fluidState gPhaseIdx H2OIdx)) fluidState
      in setPartialPressure N2Idx (fmul_fl R pg (moleFrac fs1 gPhaseIdx N2Idx)) fs1)"

definition phaseDensity ::
  "Components \<Rightarrow> int \<Rightarrow> scalar \<Rightarrow> scalar \<Rightarrow> FluidState \<Rightarrow> failure + scalar" where
  "phaseDensity c phaseIdx temperature pressure fluidState =
     (if phaseIdx = lPhaseIdx then Inr (H2O_liquidDensity c temperature pressure)
      else if phaseIdx = gPhaseIdx then
        (let meanMolarMass =
               fadd (fmul (moleFrac fluidState gPhaseIdx H2OIdx) (H2O_molarMass c))
                    (fmul (moleFrac fluidState gPhaseIdx N2Idx) (N2_molarMass c))
         in Inr (IdealGas_density c meanMolarMass temperature pressure))
      else Inl (InvalidStateException (InvalidPhaseIndex phaseIdx)))"

definition phaseViscosity ::
  "Components \<Rightarrow> int \<Rightarrow> scalar \<Rightarrow> scalar \<Rightarrow> FluidState \<Rightarrow> failure + scalar" where
  "phaseViscosity c phaseIdx temperature pressure fluidState =
     (if phaseIdx = lPhaseIdx then Inr (H2O_liquidViscosity c temperature pressure)
      else Inr (N2_gasViscosity c temperature pressure))"

text \<open>An exception thrown by a callee propagates to the caller.\<close>

definition phaseInternalEnergy ::
  "Components \<Rightarrow> int \<Rightarrow> scalar \<Rightarrow> scalar \<Rightarrow> FluidState \<Rightarrow> failure + scalar" where
  "phaseInternalEnergy c phaseIdx temperature pressure fluidState =
     (case enthalpy c phaseIdx temperature pressure fluidState of
        Inl e \<Rightarrow> Inl e
      | Inr h \<Rightarrow>
          if phaseIdx = lPhaseIdx then
            (case phaseDensity c phaseIdx temperature pressure fluidState of
               Inl e \<Rightarrow> Inl e
             | Inr rho \<Rightarrow> Inr (fsub h (fmul pressure rho)))
          else Inr (fsub h (fmul (IdealGas_R c) temperature)))"

text \<open>
  The other correlations that the fluid system calls (\<open>H2O\<close>, \<open>N2\<close> and
  \<open>BinaryCoeff::H2O_N2\<close>, all in other headers) are parameters as well.
\<close>

record Correlations =
  H2O_vaporPressure :: "scalar \<Rightarrow> scalar"
  H2O_N2_henry :: "scalar \<Rightarrow> scalar"
  N2_liquidDensity :: "scalar \<Rightarrow> scalar \<Rightarrow> scalar"
  H2O_gasDensity :: "scalar \<Rightarrow> scalar \<Rightarrow> scalar"
  N2_gasDensity :: "scalar \<Rightarrow> scalar \<Rightarrow> scalar"
  H2O_liquidPressure :: "scalar \<Rightarrow> scalar \<Rightarrow> scalar"
  N2_liquidPressure :: "scalar \<Rightarrow> scalar \<Rightarrow> scalar"
  H2O_gasPressure :: "scalar \<Rightarrow> scalar \<Rightarrow> scalar"
  N2_gasPressure :: "scalar \<Rightarrow> scalar \<Rightarrow> scalar"
  H2O_N2_liquidDiffCoeff :: "scalar \<Rightarrow> scalar \<Rightarrow> scalar"
  H2O_N2_gasDiffCoeff :: "scalar \<Rightarrow> scalar \<Rightarrow> scalar"
  H2O_liquidEnthalpy :: "scalar \<Rightarrow> scalar \<Rightarrow> scalar"
  H2O_gasEnthalpy :: "scalar \<Rightarrow> scalar \<Rightarrow> scalar"
  N2_gasEnthalpy :: "scalar \<Rightarrow> scalar \<Rightarrow> scalar"

definition degasPressure :: "Correlations \<Rightarrow> int \<Rightarrow> scalar \<Rightarrow> scalar \<Rightarrow> failure + scalar" where
  "degasPressure k compIdx temperature pressure =
     (if compIdx = H2OIdx then Inr (H2O_vaporPressure k temperature)
      else if compIdx = N2Idx then Inr (H2O_N2_henry k temperature)
      else Inl (InvalidStateException (InvalidComponentIndex compIdx)))"

definition componentDensity ::
  "Components \<Rightarrow> Correlations \<Rightarrow> int \<Rightarrow> int \<Rightarrow> scalar \<Rightarrow> scalar \<Rightarrow> failure + scalar" where
  "componentDensity c k phaseIdx compIdx temperature pressure =
     (if phaseIdx = lPhaseIdx then
        (if compIdx = H2OIdx then Inr (H2O_liquidDensity c temperature pressure)
         else if compIdx = N2Idx then Inr (N2_liquidDensity k temperature pressure)
         else Inl (InvalidStateException (InvalidComponentIndex compIdx)))
      else if phaseIdx = gPhaseIdx then
        (if compIdx = H2OIdx then Inr (H2O_gasDensity k temperature pressure)
         else if compIdx = N2Idx then Inr (N2_gasDensity k temperature pressure)
         else Inl (InvalidStateException (InvalidComponentIndex compIdx)))
      else Inl (InvalidStateException (InvalidPhaseIndex phaseIdx)))"

definition componentPressure ::
  "Correlations \<Rightarrow> int \<Rightarrow> int \<Rightarrow> scalar \<Rightarrow> scalar \<Rightarrow> failure + scalar" where
  "componentPressure k phaseIdx compIdx temperature density =
     (if phaseIdx = lPhaseIdx then
        (if compIdx = H2OIdx then Inr (H2O_liquidPressure k temperature density)
         else if compIdx = N2Idx then Inr (N2_liquidPressure k temperature density)
         else Inl (InvalidStateException (InvalidComponentIndex compIdx)))
      else if phaseIdx = gPhaseIdx then
        (if compIdx = H2OIdx then Inr (H2O_gasPressure k temperature density)
         else if compIdx = N2Idx then Inr (N2_gasPressure k temperature density)
         else Inl (InvalidStateException (InvalidComponentIndex compIdx)))
      else Inl (InvalidStateException (InvalidPhaseIndex phaseIdx)))"

text \<open>
  \<open>diffCoeff\<close> orders the two component indices first. In the liquid phase the inner
  switches either return or fall into the \<open>default\<close> label, which throws; the gas phase
  and every other phase index that does not return reach the throw at the end.
\<close>

definition diffCoeff ::
  "Correlations \<Rightarrow> int \<Rightarrow> int \<Rightarrow> int \<Rightarrow> scalar \<Rightarrow> scalar \<Rightarrow> FluidState \<Rightarrow> failure + scalar"
  where
  "diffCoeff k phaseIdx compIIdx compJIdx temperature pressure fluidState =
     (let i = (if compIIdx > compJIdx then compJIdx else compIIdx);
          j = (if compIIdx > compJIdx then compIIdx else compJIdx)
      in if phaseIdx = lPhaseIdx then
           (if i = H2OIdx \<and> j = N2Idx
            then Inr (H2O_N2_liquidDiffCoeff k temperature pressure)
            else Inl (InvalidStateException TraceDiffCoeffUndefined))
         else if phaseIdx = gPhaseIdx \<and> i = H2OIdx \<and> j = N2Idx
           then Inr (H2O_N2_gasDiffCoeff k temperature pressure)
         else Inl (InvalidStateException (DiffCoeffUndefined i j phaseIdx)))"

text \<open>
  \<open>phaseEnthalpy\<close>. In the liquid branch the source declares
  \<open>Scalar temperature = temperature; Scalar pressure = pressure;\<close>: the new locals hide
  the parameters and are initialised with themselves, so \<open>H2O::liquidEnthalpy\<close> is
  called on two values that nothing determines. They are the arguments
  \<open>uninit_temperature\<close> and \<open>uninit_pressure\<close> of the model. The other branch is
  taken for every other phase index; \<open>result\<close> starts at 0 and the two products are
  added to it.
\<close>

definition phaseEnthalpy ::
  "Correlations \<Rightarrow> scalar \<Rightarrow> scalar \<Rightarrow> int \<Rightarrow> scalar \<Rightarrow> scalar \<Rightarrow> FluidState \<Rightarrow> failure + scalar"
  where
  "phaseEnthalpy k uninit_temperature uninit_pressure phaseIdx temperature pressure fluidState =
     (if phaseIdx = lPhaseIdx
      then Inr (H2O_liquidEnthalpy k uninit_temperature uninit_pressure)
      else
        (let pWater = partialPressure fluidState H2OIdx;
             result1 = fadd (Fin 0)
                         (fmul (H2O_gasEnthalpy k temperature pWater)
                               (massFrac fluidState gPhaseIdx H2OIdx));
             result2 = fadd result1
                         (fmul (N2_gasEnthalpy k temperature (partialPressure fluidState N2Idx))
                               (massFrac fluidState gPhaseIdx N2Idx))
         in Inr result2))"

section \<open>Calls and their effects\<close>

text \<open>
  One call of an exported function, as a relation between the state before, the outcome
  and the state after. The state is what a call receives by reference: the parameter
  struct of the Brooks-Corey curves and the fluid state. The build, the rounding of the
  machine, the component classes (static functions, taken as functions of their
  arguments) and the \<open>setPartialPressure\<close> of the fluid state are fixed by the
  environment.

  A function that takes its struct by const reference and has no static data returns
  the state as it was. \<open>computePartialPressures\<close> returns the fluid state that its two
  setter calls leave. The liquid branch of \<open>phaseEnthalpy\<close> has an outcome for every
  pair of values of its uninitialised locals.
\<close>

record world =
  w_params :: Params
  w_fluidState :: FluidState

record env =
  env_build :: build
  env_rounding :: rounding
  env_components :: Components
  env_correlations :: Correlations
  env_setPartialPressure :: "int \<Rightarrow> scalar \<Rightarrow> FluidState \<Rightarrow> FluidState"

datatype call =
    BC_pC scalar
  | BC_Sw scalar
  | BC_dpC_dSw scalar
  | BC_dSw_dpC scalar
  | BC_krw scalar
  | BC_krn scalar
  | FS_init
  | FS_componentName int
  | FS_molarMass int
  | FS_computePartialPressures scalar scalar
  | FS_phaseDensity int scalar scalar
  | FS_phaseViscosity int scalar scalar
  | FS_degasPressure int scalar scalar
  | FS_componentDensity int int scalar scalar
  | FS_componentPressure int int scalar scalar
  | FS_diffCoeff int int int scalar scalar
  | FS_phaseEnthalpy int scalar scalar
  | FS_phaseInternalEnergy int scalar scalar

datatype retval = Void | Number scalar | Name string

definition number :: "failure + scalar \<Rightarrow> failure + retval" where
  "number r = (case r of Inl e \<Rightarrow> Inl e | Inr v \<Rightarrow> Inr (Number v))"

definition name :: "failure + string \<Rightarrow> failure + retval" where
  "name r = (case r of Inl e \<Rightarrow> Inl e | Inr v \<Rightarrow> Inr (Name v))"

inductive exec :: "env \<Rightarrow> call \<Rightarrow> world \<Rightarrow> failure + retval \<Rightarrow> world \<Rightarrow> bool" where
  pC: "exec E (BC_pC Swe) w (number (pC (env_build E) (w_params w) Swe)) w"
| Sw: "exec E (BC_Sw pc) w (number (Sw (env_build E) (w_params w) pc)) w"
| dpC_dSw: "exec E (BC_dpC_dSw Swe) w (number (dpC_dSw (env_build E) (w_params w) Swe)) w"
| dSw_dpC: "exec E (BC_dSw_dpC pc) w (number (dSw_dpC (env_build E) (w_params w) pc)) w"
| krw: "exec E (BC_krw Sw_mob) w (number (krw (env_build E) (w_params w) Sw_mob)) w"
| krn: "exec E (BC_krn Sw_mob) w (number (krn (env_build E) (w_params w) Sw_mob)) w"
| init: "exec E FS_init w (Inr Void) w"
| componentName:
    "exec E (FS_componentName compIdx) w (name (componentName (env_components E) compIdx)) w"
| molarMass:
    "exec E (FS_molarMass compIdx) w (number (molarMass (env_components E) compIdx)) w"
| computePartialPressures:
    "exec E (FS_computePartialPressures temperature pg) w (Inr Void)
       (w\<lparr>w_fluidState :=
            computePartialPressures (env_rounding E) (env_setPartialPressure E)
              temperature pg (w_fluidState w)\<rparr>)"
| phaseDensity:
    "exec E (FS_phaseDensity phaseIdx temperature pressure) w
       (number (phaseDensity (env_components E) phaseIdx temperature pressure
                  (w_fluidState w))) w"
| phaseViscosity:
    "exec E (FS_phaseViscosity phaseIdx temperature pressure) w
       (number (phaseViscosity (env_components E) phaseIdx temperature pressure
                  (w_fluidState w))) w"
| degasPressure:
    "exec E (FS_degasPressure compIdx temperature pressure) w
       (number (degasPressure (env_correlations E) compIdx temperature pressure)) w"
| componentDensity:
    "exec E (FS_componentDensity phaseIdx compIdx temperature pressure) w
       (number (componentDensity (env_components E) (env_correlations E) phaseIdx compIdx
                  temperature pressure)) w"
| componentPressure:
    "exec E (FS_componentPressure phaseIdx compIdx temperature density) w
       (number (componentPressure (env_correlations E) phaseIdx compIdx temperature
                  density)) w"
| diffCoeff:
    "exec E (FS_diffCoeff phaseIdx compIIdx compJIdx temperature pressure) w
       (number (diffCoeff (env_correlations E) phaseIdx compIIdx compJIdx temperature
                  pressure (w_fluidState w))) w"
| phaseEnthalpy:
    "exec E (FS_phaseEnthalpy phaseIdx temperature pressure) w
       (number (phaseEnthalpy (env_correlations E) uninit_temperature uninit_pressure
                  phaseIdx temperature pressure (w_fluidState w))) w"
| phaseInternalEnergy:
    "exec E (FS_phaseInternalEnergy phaseIdx temperature pressure) w
       (number (phaseInternalEnergy (env_components E) phaseIdx temperature pressure
                  (w_fluidState w))) w"



section \<open>Example data\<close>

text \<open>
  A fluid state with mole and mass fractions \<open>1/2\<close> everywhere and no partial pressure
  set yet, and a set of component properties (a mean molar mass of \<open>0.02\<close> at these mole
  fractions), used to run the functions on concrete inputs.
\<close>

definition fs_example :: FluidState where
  "fs_example = \<lparr>moleFrac = (\<lambda>phaseIdx compIdx. Fin (1 / 2)),
                  massFrac = (\<lambda>phaseIdx compIdx. Fin (1 / 2)),
                  partialPressure = (\<lambda>compIdx. Fin 0)\<rparr>"

definition comp_example :: Components where
  "comp_example =
     \<lparr>H2O_name = ''H2O'', N2_name = ''N2'',
      H2O_molarMass = Fin 0.018, N2_molarMass = Fin 0.022,
      H2O_liquidDensity = (\<lambda>temperature pressure. Fin 1000),
      H2O_liquidViscosity = (\<lambda>temperature pressure. Fin 0.001),
      N2_gasViscosity = (\<lambda>temperature pressure. Fin 0.00002),
      IdealGas_R = Fin 8.314472,
      enthalpy = (\<lambda>phaseIdx temperature pressure fluidState. Inr (Fin 100000))\<rparr>"

text \<open>Constant correlations, and a fluid state whose setter stores the partial pressure.\<close>

definition corr_example :: Correlations where
  "corr_example =
     \<lparr>H2O_vaporPressure = (\<lambda>temperature. Fin 3500),
      H2O_N2_henry = (\<lambda>temperature. Fin 9000000000),
      N2_liquidDensity = (\<lambda>temperature pressure. Fin 800),
      H2O_gasDensity = (\<lambda>temperature pressure. Fin 0.7),
      N2_gasDensity = (\<lambda>temperature pressure. Fin 1.1),
      H2O_liquidPressure = (\<lambda>temperature density. Fin 100000),
      N2_liquidPressure = (\<lambda>temperature density. Fin 100000),
      H2O_gasPressure = (\<lambda>temperature density. Fin 100000),
      N2_gasPressure = (\<lambda>temperature density. Fin 100000),
      H2O_N2_liquidDiffCoeff = (\<lambda>temperature pressure. Fin 0.000000002),
      H2O_N2_gasDiffCoeff = (\<lambda>temperature pressure. Fin 0.00002),
      H2O_liquidEnthalpy = (\<lambda>temperature pressure. temperature),
      H2O_gasEnthalpy = (\<lambda>temperature pressure. Fin 2000000),
      N2_gasEnthalpy = (\<lambda>temperature pressure. Fin 300000)\<rparr>"

definition store_partialPressure :: "int \<Rightarrow> scalar \<Rightarrow> FluidState \<Rightarrow> FluidState" where
  "store_partialPressure compIdx p fluidState =
     fluidState\<lparr>partialPressure := (partialPressure fluidState)(compIdx := p)\<rparr>"

definition env_example :: env where
  "env_example = \<lparr>env_build = Debug, env_rounding = exact,
                   env_components = comp_example,
                   env_correlations = corr_example,
                   env_setPartialPressure = store_partialPressure\<rparr>"

definition world_example :: world where
  "world_example = \<lparr>w_params = \<lparr>pe = Fin 1000, alpha = Fin 2\<rparr>,
                     w_fluidState = fs_example\<rparr>"

text \<open>A rounding whose products are too large by one part in a thousand.\<close>

definition rounding_example :: rounding where
  "rounding_example = \<lparr>rmul = (\<lambda>x y. Fin (x * y * (1 + 1 / 1000))),
                        rdiv = (\<lambda>x y. Fin (x / y)),
                        rpow = (\<lambda>x y. Fin (x powr y))\<rparr>"

section \<open>Arithmetic on finite scalars\<close>

lemma fmul_Fin: "a \<noteq> 0 \<Longrightarrow> b \<noteq> 0 \<Longrightarrow> fmul (Fin a) (Fin b) = Fin (a * b)"
  by (simp add: fmul_def is_inf_def is_zero_def)

lemma fdiv_Fin: "b \<noteq> 0 \<Longrightarrow> a \<noteq> 0 \<Longrightarrow> fdiv (Fin a) (Fin b) = Fin (a / b)"
  by (simp add: fdiv_def is_inf_def is_zero_def)

lemma fpow_Fin_pos:
  "0 < x \<Longrightarrow> y \<noteq> 0 \<Longrightarrow> fpow (Fin x) (Fin y) = Fin (x powr y)"
  by (simp add: fpow_def is_inf_def is_zero_def)

lemma fle_Fin: "fle (Fin a) (Fin b) = (a \<le> b)"
  by (simp add: fle_def)

lemma flt_Fin: "flt (Fin a) (Fin b) = (a < b)"
  by (simp add: flt_def)





lemma clamp_pos: "0 < t \<Longrightarrow> std_min (std_max (Fin t) (Fin 0)) (Fin 1) = Fin (min 1 t)"
  by (simp add: std_min_def std_max_def flt_Fin min_def)

section \<open>Rounded operations\<close>

lemma fmul_fl_Fin: "a \<noteq> 0 \<Longrightarrow> b \<noteq> 0 \<Longrightarrow> fmul_fl R (Fin a) (Fin b) = rmul R a b"
  by (simp add: fmul_fl_def)

lemma fdiv_fl_Fin: "a \<noteq> 0 \<Longrightarrow> b \<noteq> 0 \<Longrightarrow> fdiv_fl R (Fin a) (Fin b) = rdiv R a b"
  by (simp add: fdiv_fl_def)

lemma fpow_fl_Fin_pos:
  "0 < x \<Longrightarrow> x \<noteq> 1 \<Longrightarrow> y \<noteq> 0 \<Longrightarrow> fpow_fl R (Fin x) (Fin y) = rpow R x y"
  by (simp add: fpow_fl_def)

lemma fpow_fl_one: "fpow_fl R (Fin 1) y = Fin 1"
  by (simp add: fpow_fl_def fpow_def)

text \<open>Without rounding the rounded operations and curves are the exact ones.\<close>

lemma fmul_fl_exact: "fmul_fl exact a b = fmul a b"
  by (cases a; cases b) (simp_all add: fmul_fl_def exact_def fmul_def is_inf_def is_zero_def)

lemma fdiv_fl_exact: "fdiv_fl exact a b = fdiv a b"
  by (cases a; cases b) (simp_all add: fdiv_fl_def exact_def fdiv_def is_inf_def is_zero_def)

lemma fpow_fl_exact: "fpow_fl exact x y = fpow x y"
  by (cases x; cases y) (simp_all add: fpow_fl_def exact_def)

lemma pC_fl_exact: "pC_fl exact b params Swe = pC b params Swe"
  by (simp add: pC_fl_def pC_def fmul_fl_exact fdiv_fl_exact fpow_fl_exact)

lemma Sw_fl_exact: "Sw_fl exact b params pc = Sw b params pc"
  by (simp add: Sw_fl_def Sw_def fmul_fl_exact fdiv_fl_exact fpow_fl_exact)

text \<open>
  The factor by which the round trip misses \<open>s\<close>, bounded: each of its three parts lies
  between the values it takes at the relative errors \<open>-u\<close> and \<open>u\<close>.
\<close>

lemma roundtrip_bound:
  fixes s a u d0 d1 d2 d3 d4 :: real
  assumes s: "0 < s" "s \<le> 1" and a: "0 < a" and u: "u < 1"
    and d: "\<bar>d0\<bar> \<le> u" "\<bar>d1\<bar> \<le> u" "\<bar>d2\<bar> \<le> u" "\<bar>d3\<bar> \<le> u" "\<bar>d4\<bar> \<le> u"
  defines "t \<equiv> s powr (1 + d0) * ((1 + d1) * (1 + d2) * (1 + d3)) powr (- a) * (1 + d4)"
  shows "s powr (1 + u) * ((1 + u) powr (- a)) ^ 3 * (1 - u) \<le> t
       \<and> t \<le> s powr (1 - u) * ((1 - u) powr (- a)) ^ 3 * (1 + u)"
proof -
  have u0: "0 \<le> u" using d(1) by linarith
  have f: "\<And>x. \<bar>x\<bar> \<le> u \<Longrightarrow> 0 < 1 + x \<and> 1 - u \<le> 1 + x \<and> 1 + x \<le> 1 + u"
    using u by (simp add: abs_le_iff)
  have g: "\<And>x. \<bar>x\<bar> \<le> u \<Longrightarrow>
              (1 + u) powr (- a) \<le> (1 + x) powr (- a)
            \<and> (1 + x) powr (- a) \<le> (1 - u) powr (- a)"
  proof -
    fix x :: real assume "\<bar>x\<bar> \<le> u"
    then have h: "0 < 1 + x" "1 - u \<le> 1 + x" "1 + x \<le> 1 + u" using f by blast+
    have "(1 + u) powr (- a) \<le> (1 + x) powr (- a)"
      using a h by (intro powr_mono2') simp_all
    moreover have "(1 + x) powr (- a) \<le> (1 - u) powr (- a)"
      using a h u by (intro powr_mono2') simp_all
    ultimately show "(1 + u) powr (- a) \<le> (1 + x) powr (- a)
                   \<and> (1 + x) powr (- a) \<le> (1 - u) powr (- a)"
      by blast
  qed
  define L where "L = (1 + u) powr (- a)"
  define U where "U = (1 - u) powr (- a)"
  have L0: "0 \<le> L" by (simp add: L_def)
  have U0: "0 \<le> U" by (simp add: U_def)
  define A where "A = s powr (1 + d0)"
  define B where "B = (1 + d1) powr (- a) * (1 + d2) powr (- a) * (1 + d3) powr (- a)"
  have Beq: "((1 + d1) * (1 + d2) * (1 + d3)) powr (- a) = B"
    by (simp add: B_def powr_mult)
  have A1: "s powr (1 + u) \<le> A" unfolding A_def
    using s f [OF d(1)] by (intro powr_mono') simp_all
  have A2: "A \<le> s powr (1 - u)" unfolding A_def
    using s f [OF d(1)] by (intro powr_mono') simp_all
  have A0: "0 \<le> A" by (simp add: A_def)
  have b1: "L \<le> (1 + d1) powr (- a)" "(1 + d1) powr (- a) \<le> U"
    using g [OF d(2)] by (simp_all add: L_def U_def)
  have b2: "L \<le> (1 + d2) powr (- a)" "(1 + d2) powr (- a) \<le> U"
    using g [OF d(3)] by (simp_all add: L_def U_def)
  have b3: "L \<le> (1 + d3) powr (- a)" "(1 + d3) powr (- a) \<le> U"
    using g [OF d(4)] by (simp_all add: L_def U_def)
  have B1: "L ^ 3 \<le> B"
  proof -
    have "L * L \<le> (1 + d1) powr (- a) * (1 + d2) powr (- a)"
      by (rule mult_mono) (use b1(1) b2(1) L0 in simp_all)
    then have "L * L * L \<le> (1 + d1) powr (- a) * (1 + d2) powr (- a) * (1 + d3) powr (- a)"
      by (rule mult_mono) (use b3(1) L0 in simp_all)
    then show ?thesis by (simp add: B_def power3_eq_cube)
  qed
  have B2: "B \<le> U ^ 3"
  proof -
    have "(1 + d1) powr (- a) * (1 + d2) powr (- a) \<le> U * U"
      by (rule mult_mono) (use b1(2) b2(2) U0 in simp_all)
    then have "(1 + d1) powr (- a) * (1 + d2) powr (- a) * (1 + d3) powr (- a) \<le> U * U * U"
      by (rule mult_mono) (use b3(2) U0 in simp_all)
    then show ?thesis by (simp add: B_def power3_eq_cube)
  qed
  have B0: "0 \<le> B" by (simp add: B_def)
  have AB1: "s powr (1 + u) * L ^ 3 \<le> A * B"
    by (rule mult_mono) (use A1 B1 L0 A0 in simp_all)
  have AB2: "A * B \<le> s powr (1 - u) * U ^ 3"
    by (rule mult_mono) (use A2 B2 B0 U0 in simp_all)
  have AB0: "0 \<le> A * B" using B0 by (simp add: A_def)
  have e: "1 - u \<le> 1 + d4" "1 + d4 \<le> 1 + u" "0 < 1 + d4" using f [OF d(5)] by blast+
  have lo: "s powr (1 + u) * L ^ 3 * (1 - u) \<le> A * B * (1 + d4)"
    by (rule mult_mono) (use AB1 e u L0 AB0 in simp_all)
  have hi: "A * B * (1 + d4) \<le> s powr (1 - u) * U ^ 3 * (1 + u)"
    by (rule mult_mono) (use AB2 e AB0 u0 U0 in simp_all)
  have "t = A * B * (1 + d4)" by (simp add: t_def A_def Beq)
  with lo hi show ?thesis by (simp add: L_def U_def)
qed

section \<open>Brooks-Corey: the inverse curve\<close>

text \<open>
  C1, as stated, for every parameter set with \<open>pe > 0\<close> and \<open>alpha > 0\<close>: it fails.
  With \<open>alpha = +inf\<close> the exponent \<open>-1/alpha\<close> is \<open>-0\<close> and \<open>pow(s, -0)\<close> is 1, so
  \<open>pC(params, 1/2)\<close> is \<open>pe\<close>; then \<open>pe/pe\<close> is 1 and \<open>pow(1, -inf)\<close> is 1: the round
  trip of \<open>1/2\<close> returns 1 (no operation on this path rounds). With the finite
  \<open>alpha = 1/2000\<close> the power \<open>(1/2)^(-2000)\<close> is \<open>2^2000\<close>, which overflows: \<open>pC\<close>
  returns \<open>+inf\<close>, and \<open>Sw\<close> of it returns 0.
\<close>

theorem C1_roundtrip_counterexample:
  "pC_fl exact Debug \<lparr>pe = Fin 1000, alpha = PInf\<rparr> (Fin (1 / 2)) = Inr (Fin 1000)
 \<and> Sw_fl exact Debug \<lparr>pe = Fin 1000, alpha = PInf\<rparr> (Fin 1000) = Inr (Fin 1)
 \<and> pC_fl overflowing Debug \<lparr>pe = Fin 1000, alpha = Fin (1 / 2000)\<rparr> (Fin (1 / 2)) = Inr PInf
 \<and> Sw_fl overflowing Debug \<lparr>pe = Fin 1000, alpha = Fin (1 / 2000)\<rparr> PInf = Inr (Fin 0)"
proof -
  have a: "pC_fl exact Debug \<lparr>pe = Fin 1000, alpha = PInf\<rparr> (Fin (1 / 2)) = Inr (Fin 1000)
         \<and> Sw_fl exact Debug \<lparr>pe = Fin 1000, alpha = PInf\<rparr> (Fin 1000) = Inr (Fin 1)"
    by (simp add: pC_fl_exact Sw_fl_exact pC_def Sw_def assert_fails_def fge_def fle_def
        fdiv_def fpow_def fmul_def is_zero_def is_inf_def zero_of_def std_min_def
        std_max_def flt_def)
  have big: "(2 :: real) ^ 1024 \<le> 2 ^ 2000"
    by (rule power_increasing) simp_all
  have small: "\<not> (2 :: real) ^ 1024 \<le> 2000"
  proof -
    have "(2000 :: real) < 2 ^ 11" by simp
    also have "(2 :: real) ^ 11 \<le> 2 ^ 1024" by (rule power_increasing) simp_all
    finally show ?thesis by simp
  qed
  have pw: "(1 / 2 :: real) powr (- 2000) = 2 ^ 2000"
    by (simp add: powr_minus power_divide del: power_numeral)
  have e: "fdiv_fl overflowing (Fin (- 1)) (Fin (1 / 2000)) = Fin (- 2000)"
    using small by (simp add: fdiv_fl_def overflowing_def overflow_def)
  have q: "fpow_fl overflowing (Fin (1 / 2)) (Fin (- 2000)) = PInf"
    using big
    by (simp add: fpow_fl_def overflowing_def overflow_def fpow_def is_zero_def is_inf_def
        inf_of_def pw del: power_numeral)
  have m: "fmul_fl overflowing (Fin 1000) PInf = PInf"
    by (simp add: fmul_fl_def fmul_def is_inf_def is_zero_def inf_of_def)
  have b: "pC_fl overflowing Debug \<lparr>pe = Fin 1000, alpha = Fin (1 / 2000)\<rparr> (Fin (1 / 2))
             = Inr PInf"
    by (simp add: pC_fl_def assert_fails_def fle_def e q m)
  have d: "fdiv_fl overflowing PInf (Fin 1000) = PInf"
    by (simp add: fdiv_fl_def fdiv_def is_inf_def inf_of_def)
  have p: "fpow_fl overflowing PInf (Fin (- (1 / 2000))) = Fin 0"
    by (simp add: fpow_fl_def fpow_def is_zero_def is_inf_def)
  have c: "Sw_fl overflowing Debug \<lparr>pe = Fin 1000, alpha = Fin (1 / 2000)\<rparr> PInf
             = Inr (Fin 0)"
    by (simp add: Sw_fl_def assert_fails_def fge_def fle_def d p std_min_def std_max_def
        flt_def)
  show ?thesis using a b c by simp
qed

text \<open>
  C1, amended. Let \<open>s\<close> in \<open>(0,1]\<close>, \<open>pe > 0\<close> and \<open>alpha > 0\<close> be finite, and let the
  five operations of the two calls return finite results with the relative errors
  \<open>d0\<close> (the quotient \<open>-1/alpha\<close>), \<open>d1\<close> (the power in \<open>pC\<close>), \<open>d2\<close> (the product
  with \<open>pe\<close>), \<open>d3\<close> (the quotient \<open>pC/pe\<close>) and \<open>d4\<close> (the power in \<open>Sw\<close>), each
  above \<open>-1\<close>; a power of base 1 is exact. Then, in either build, \<open>pC(params, s)\<close>
  returns the pressure \<open>P\<close> and \<open>Sw(params, P)\<close> returns \<open>min(1, t)\<close> with
  \<open>t = s^(1+d0) * ((1+d1)(1+d2)(1+d3))^(-alpha) * (1+d4)\<close>. When no error exceeds
  \<open>u < 1\<close> in magnitude, \<open>t\<close> lies between \<open>s^(1+u) * (1+u)^(-3 alpha) * (1-u)\<close> and
  \<open>s^(1-u) * (1-u)^(-3 alpha) * (1+u)\<close>: the round trip returns \<open>s\<close> up to a factor
  that is 1 when nothing rounds and that moves away from 1 as \<open>alpha\<close> grows.
\<close>

theorem C1_roundtrip_rounded:
  fixes s p a d0 d1 d2 d3 d4 e q P x t :: real
  assumes dom: "0 < s" "s \<le> 1" "0 < p" "0 < a"
    and par: "pe params = Fin p" "alpha params = Fin a"
    and err: "- 1 < d0" "- 1 < d1" "- 1 < d2" "- 1 < d3" "- 1 < d4"
    and e: "e = - (1 / a) * (1 + d0)" "rdiv R (- 1) a = Fin e"
    and q: "q = s powr e * (1 + d1)" "if s = 1 then d1 = 0 else rpow R s e = Fin q"
    and P: "P = p * q * (1 + d2)" "rmul R p q = Fin P"
    and x: "x = P / p * (1 + d3)" "rdiv R P p = Fin x"
    and t: "t = x powr (- a) * (1 + d4)" "if x = 1 then d4 = 0 else rpow R x (- a) = Fin t"
  shows "pC_fl R b params (Fin s) = Inr (Fin P)
       \<and> Sw_fl R b params (Fin P) = Inr (Fin (min 1 t))
       \<and> t = s powr (1 + d0) * ((1 + d1) * (1 + d2) * (1 + d3)) powr (- a) * (1 + d4)
       \<and> (\<forall>u. u < 1 \<and> \<bar>d0\<bar> \<le> u \<and> \<bar>d1\<bar> \<le> u \<and> \<bar>d2\<bar> \<le> u \<and> \<bar>d3\<bar> \<le> u \<and> \<bar>d4\<bar> \<le> u \<longrightarrow>
            s powr (1 + u) * ((1 + u) powr (- a)) ^ 3 * (1 - u) \<le> t
          \<and> t \<le> s powr (1 - u) * ((1 - u) powr (- a)) ^ 3 * (1 + u))"
proof -
  have e0: "e \<noteq> 0" using dom err e(1) by simp
  have q0: "0 < q" using dom err q(1) by simp
  have P0: "0 < P" using dom err q0 P(1) by simp
  have x0: "0 < x" using dom err P0 x(1) by simp
  have t0: "0 < t" using dom err x0 t(1) by simp
  have s1: "fdiv_fl R (Fin (- 1)) (Fin a) = Fin e"
    using dom e(2) by (simp add: fdiv_fl_Fin)
  have s2: "fpow_fl R (Fin s) (Fin e) = Fin q"
  proof (cases "s = 1")
    case True
    then show ?thesis using q by (simp add: fpow_fl_one)
  next
    case False
    then show ?thesis using dom e0 q(2) by (simp add: fpow_fl_Fin_pos)
  qed
  have s3: "fmul_fl R (Fin p) (Fin q) = Fin P"
    using dom q0 P(2) by (simp add: fmul_fl_Fin)
  have domS: "fle (Fin 0) (Fin s) \<and> fle (Fin s) (Fin 1)"
    using dom by (simp add: fle_Fin)
  have first: "pC_fl R b params (Fin s) = Inr (Fin P)"
    unfolding pC_fl_def assert_fails_def using domS by (simp add: par s1 s2 s3)
  have domP: "fge (Fin P) (Fin 0)"
    using P0 by (simp add: fge_def fle_Fin)
  have s4: "fdiv_fl R (Fin P) (Fin p) = Fin x"
    using dom P0 x(2) by (simp add: fdiv_fl_Fin)
  have s5: "fneg (Fin a) = Fin (- a)" using dom by simp
  have s6: "fpow_fl R (Fin x) (Fin (- a)) = Fin t"
  proof (cases "x = 1")
    case True
    then show ?thesis using t by (simp add: fpow_fl_one)
  next
    case False
    then show ?thesis using dom x0 t(2) by (simp add: fpow_fl_Fin_pos)
  qed
  have s7: "std_min (std_max (Fin t) (Fin 0)) (Fin 1) = Fin (min 1 t)"
    using t0 by (rule clamp_pos)
  have second: "Sw_fl R b params (Fin P) = Inr (Fin (min 1 t))"
    unfolding Sw_fl_def assert_fails_def using domP
    by (simp add: par s4 s5 s6 s7 del: fneg.simps)
  have xq: "x = s powr e * ((1 + d1) * (1 + d2) * (1 + d3))"
    using dom by (simp add: x(1) P(1) q(1))
  have "x powr (- a) = (s powr e) powr (- a) * ((1 + d1) * (1 + d2) * (1 + d3)) powr (- a)"
    unfolding xq by (rule powr_mult)
  also have "(s powr e) powr (- a) = s powr (e * (- a))"
    by (rule powr_powr)
  also have "e * (- a) = 1 + d0"
    using dom by (simp add: e(1))
  finally have form:
    "t = s powr (1 + d0) * ((1 + d1) * (1 + d2) * (1 + d3)) powr (- a) * (1 + d4)"
    by (simp add: t(1))
  have bound: "\<forall>u. u < 1 \<and> \<bar>d0\<bar> \<le> u \<and> \<bar>d1\<bar> \<le> u \<and> \<bar>d2\<bar> \<le> u \<and> \<bar>d3\<bar> \<le> u \<and> \<bar>d4\<bar> \<le> u \<longrightarrow>
            s powr (1 + u) * ((1 + u) powr (- a)) ^ 3 * (1 - u) \<le> t
          \<and> t \<le> s powr (1 - u) * ((1 - u) powr (- a)) ^ 3 * (1 + u)"
    unfolding form using dom by (intro allI impI roundtrip_bound) simp_all
  show ?thesis by (rule conjI [OF first conjI [OF second conjI [OF form bound]]])
qed

text \<open>
  At \<open>pe = 1000\<close>, \<open>alpha = 1\<close>, \<open>s = 1/2\<close>, with the product too large by one part in a
  thousand (\<open>d2 = 1/1000\<close>, the other errors 0): the pressure is 2002 and the round
  trip returns \<open>500/1001\<close>, inside the bounds for \<open>u = 1/1000\<close>.
\<close>

theorem C1_roundtrip_rounded_witness:
  "pC_fl rounding_example Debug \<lparr>pe = Fin 1000, alpha = Fin 1\<rparr> (Fin (1 / 2)) = Inr (Fin 2002)
 \<and> Sw_fl rounding_example Debug \<lparr>pe = Fin 1000, alpha = Fin 1\<rparr> (Fin 2002)
      = Inr (Fin (500 / 1001))
 \<and> (1 / 2) powr (1 + 1 / 1000) * ((1 + 1 / 1000) powr (- 1)) ^ 3 * (1 - 1 / 1000)
      \<le> (500 / 1001 :: real)
 \<and> (500 / 1001 :: real)
      \<le> (1 / 2) powr (1 - 1 / 1000) * ((1 - 1 / 1000) powr (- 1)) ^ 3 * (1 + 1 / 1000)"
proof -
  have h1: "(1 / 2 :: real) powr (- 1) = 2" by (simp add: powr_minus)
  have h2: "(1001 / 500 :: real) powr (- 1) = 500 / 1001" by (simp add: powr_minus)
  have r: "rdiv rounding_example (- 1) 1 = Fin (- 1)"
          "rpow rounding_example (1 / 2) (- 1) = Fin 2"
          "rmul rounding_example 1000 2 = Fin 2002"
          "rdiv rounding_example 2002 1000 = Fin (1001 / 500)"
          "rpow rounding_example (1001 / 500) (- 1) = Fin (500 / 1001)"
    by (simp_all add: rounding_example_def h1 h2)
  have th: "pC_fl rounding_example Debug \<lparr>pe = Fin 1000, alpha = Fin 1\<rparr> (Fin (1 / 2))
              = Inr (Fin 2002)
       \<and> Sw_fl rounding_example Debug \<lparr>pe = Fin 1000, alpha = Fin 1\<rparr> (Fin 2002)
              = Inr (Fin (min 1 (500 / 1001)))
       \<and> (500 / 1001 :: real)
           = (1 / 2) powr (1 + 0) * ((1 + 0) * (1 + 1 / 1000) * (1 + 0)) powr (- 1) * (1 + 0)
       \<and> (\<forall>u. u < 1 \<and> \<bar>0\<bar> \<le> u \<and> \<bar>0\<bar> \<le> u \<and> \<bar>1 / 1000\<bar> \<le> u \<and> \<bar>0\<bar> \<le> u \<and> \<bar>0\<bar> \<le> u \<longrightarrow>
            (1 / 2) powr (1 + u) * ((1 + u) powr (- 1)) ^ 3 * (1 - u) \<le> (500 / 1001 :: real)
          \<and> (500 / 1001 :: real) \<le> (1 / 2) powr (1 - u) * ((1 - u) powr (- 1)) ^ 3 * (1 + u))"
    by (rule C1_roundtrip_rounded
          [where s = "1 / 2" and p = 1000 and a = 1 and ?d0.0 = 0 and ?d1.0 = 0
             and ?d2.0 = "1 / 1000" and ?d3.0 = 0 and ?d4.0 = 0 and e = "- 1" and q = 2
             and P = 2002 and x = "1001 / 500" and t = "500 / 1001"
             and R = rounding_example and b = Debug
             and params = "\<lparr>pe = Fin 1000, alpha = Fin 1\<rparr>"])
       (simp_all add: r h1 h2)
  from th have bound: "\<forall>u. u < 1 \<and> \<bar>0\<bar> \<le> u \<and> \<bar>0\<bar> \<le> u \<and> \<bar>1 / 1000\<bar> \<le> u \<and> \<bar>0\<bar> \<le> u \<and> \<bar>0\<bar> \<le> u \<longrightarrow>
            (1 / 2) powr (1 + u) * ((1 + u) powr (- 1)) ^ 3 * (1 - u) \<le> (500 / 1001 :: real)
          \<and> (500 / 1001 :: real) \<le> (1 / 2) powr (1 - u) * ((1 - u) powr (- 1)) ^ 3 * (1 + u)"
    by (elim conjE)
  have b: "(1 / 2) powr (1 + 1 / 1000) * ((1 + 1 / 1000) powr (- 1)) ^ 3 * (1 - 1 / 1000)
                   \<le> (500 / 1001 :: real)
          \<and> (500 / 1001 :: real)
                   \<le> (1 / 2) powr (1 - 1 / 1000) * ((1 - 1 / 1000) powr (- 1)) ^ 3
                        * (1 + 1 / 1000)"
    using spec [OF bound, of "1 / 1000"] by simp
  from th b show ?thesis by simp
qed

section \<open>Brooks-Corey: the clamp of Sw\<close>




section \<open>Fluid system: invalid indices\<close>

text \<open>
  C3. For every component index outside \<open>{H2OIdx, N2Idx}\<close>, \<open>componentName\<close> and
  \<open>molarMass\<close> throw \<open>InvalidStateException\<close>; for every phase index outside
  \<open>{lPhaseIdx, gPhaseIdx}\<close>, \<open>phaseDensity\<close> throws it. No value is returned.
\<close>

theorem C3_invalid_index_throws:
  assumes "compIdx \<notin> {H2OIdx, N2Idx}" "phaseIdx \<notin> {lPhaseIdx, gPhaseIdx}"
  shows "componentName c compIdx = Inl (InvalidStateException (InvalidComponentIndex compIdx))
       \<and> molarMass c compIdx = Inl (InvalidStateException (InvalidComponentIndex compIdx))
       \<and> phaseDensity c phaseIdx temperature pressure fluidState
           = Inl (InvalidStateException (InvalidPhaseIndex phaseIdx))"
  using assms by (simp add: componentName_def molarMass_def phaseDensity_def)

text \<open>At the component indices 2 and -1 and the phase index 2.\<close>

theorem C3_invalid_index_throws_witness:
  "componentName comp_example 2 = Inl (InvalidStateException (InvalidComponentIndex 2))
   \<and> molarMass comp_example (- 1) = Inl (InvalidStateException (InvalidComponentIndex (- 1)))
   \<and> phaseDensity comp_example 2 (Fin 300) (Fin 100000) fs_example
        = Inl (InvalidStateException (InvalidPhaseIndex 2))"
  using C3_invalid_index_throws [of 2 2 comp_example "Fin 300" "Fin 100000" fs_example]
        C3_invalid_index_throws [of "- 1" 2 comp_example "Fin 300" "Fin 100000" fs_example]
  by (simp add: H2OIdx_def N2Idx_def lPhaseIdx_def gPhaseIdx_def)

section \<open>Brooks-Corey: the example scenario\<close>

lemma sqrt2_bounds: "1.4142 < sqrt (2::real) \<and> sqrt (2::real) < 1.41422"
proof
  show "1.4142 < sqrt (2::real)"
    by (rule real_less_rsqrt) (simp add: power2_eq_square)
  show "sqrt (2::real) < 1.41422"
    by (rule real_less_lsqrt) (simp_all add: power2_eq_square)
qed

lemma half_powr_mhalf: "(1 / 2 :: real) powr (- (1 / 2)) = sqrt 2"
proof -
  have r: "((1 / 2 :: real) powr (1 / 2)) = sqrt (1 / 2)"
    by (rule powr_half_sqrt) simp
  have "(1 / 2 :: real) powr (- (1 / 2)) = inverse ((1 / 2) powr (1 / 2))"
    by (rule powr_minus)
  also have "\<dots> = inverse (sqrt (1 / 2))"
    by (simp only: r)
  also have "\<dots> = sqrt (inverse (1 / 2))"
    by (rule real_sqrt_inverse [symmetric])
  also have "\<dots> = sqrt 2" by simp
  finally show ?thesis .
qed

lemma half_powr_m3half: "(1 / 2 :: real) powr (- (3 / 2)) = 2 * sqrt 2"
proof -
  have m1: "(1 / 2 :: real) powr (- 1) = 2"
    by (simp add: powr_minus)
  have "(- (3 / 2) :: real) = (- 1) + (- (1 / 2))" by simp
  then have "(1 / 2 :: real) powr (- (3 / 2)) = (1 / 2) powr ((- 1) + (- (1 / 2)))"
    by simp
  also have "\<dots> = (1 / 2) powr (- 1) * (1 / 2) powr (- (1 / 2))"
    by (rule powr_add)
  also have "\<dots> = 2 * sqrt 2"
    by (simp only: m1 half_powr_mhalf)
  finally show ?thesis .
qed

text \<open>
  C4. With \<open>pe = 1000\<close> and \<open>alpha = 2\<close>, in either build, \<open>pC(params, 0.5)\<close> is
  \<open>1000 * 0.5^(-0.5)\<close> and \<open>dpC_dSw(params, 0.5)\<close> is \<open>-1000/2 * 0.5^(-1.5)\<close>; the
  first is within 0.02 of 1414.2 and the second within 0.02 of -1414.2.
\<close>

theorem C4_example_values:
  "pC b \<lparr>pe = Fin 1000, alpha = Fin 2\<rparr> (Fin 0.5) = Inr (Fin (1000 * 0.5 powr (- 0.5)))
   \<and> dpC_dSw b \<lparr>pe = Fin 1000, alpha = Fin 2\<rparr> (Fin 0.5)
        = Inr (Fin (- 1000 / 2 * 0.5 powr (- 1.5)))
   \<and> \<bar>1000 * 0.5 powr (- 0.5) - 1414.2\<bar> < (0.02 :: real)
   \<and> \<bar>- 1000 / 2 * 0.5 powr (- 1.5) - (- 1414.2)\<bar> < (0.02 :: real)"
proof -
  have dom: "fle (Fin 0) (Fin 0.5) \<and> fle (Fin 0.5) (Fin 1)"
    by (simp add: fle_Fin)
  have e1: "fdiv (Fin (- 1)) (Fin 2) = Fin (- (1 / 2))"
    by (simp add: fdiv_Fin)
  have e2: "fpow (Fin (1 / 2)) (Fin (- (1 / 2))) = Fin ((1 / 2) powr (- (1 / 2)))"
    by (simp add: fpow_Fin_pos)
  have e3: "fmul (Fin 1000) (Fin ((1 / 2) powr (- (1 / 2))))
              = Fin (1000 * (1 / 2) powr (- (1 / 2)))"
    by (simp add: fmul_Fin)
  have p1: "pC b \<lparr>pe = Fin 1000, alpha = Fin 2\<rparr> (Fin 0.5)
              = Inr (Fin (1000 * 0.5 powr (- 0.5)))"
    unfolding pC_def assert_fails_def using dom by (simp add: e1 e2 e3)
  have f1: "fdiv (fneg (Fin 1000)) (Fin 2) = Fin (- 500)"
    by (simp add: fdiv_Fin)
  have f2: "fsub (Fin (- (1 / 2))) (Fin 1) = Fin (- (3 / 2))"
    by (simp add: fsub_def fadd_def is_inf_def)
  have f3: "fpow (Fin (1 / 2)) (Fin (- (3 / 2))) = Fin ((1 / 2) powr (- (3 / 2)))"
    by (simp add: fpow_Fin_pos)
  have f4: "fmul (Fin (- 500)) (Fin ((1 / 2) powr (- (3 / 2))))
              = Fin (- 500 * (1 / 2) powr (- (3 / 2)))"
    by (simp add: fmul_Fin)
  have p2: "dpC_dSw b \<lparr>pe = Fin 1000, alpha = Fin 2\<rparr> (Fin 0.5)
              = Inr (Fin (- 1000 / 2 * 0.5 powr (- 1.5)))"
    unfolding dpC_dSw_def assert_fails_def using dom
    by (simp add: e1 f1 f2 f3 f4 del: fneg.simps)
  have a1: "\<bar>1000 * 0.5 powr (- 0.5) - 1414.2\<bar> < (0.02 :: real)"
    using sqrt2_bounds by (simp add: half_powr_mhalf)
  have a2: "\<bar>- 1000 / 2 * 0.5 powr (- 1.5) - (- 1414.2)\<bar> < (0.02 :: real)"
    using sqrt2_bounds by (simp add: half_powr_m3half)
  show ?thesis using p1 p2 a1 a2 by blast
qed

section \<open>Brooks-Corey: inputs outside the domain\<close>

text \<open>
  C5. For each curve taking a saturation (\<open>pC\<close>, \<open>dpC_dSw\<close>, \<open>krw\<close>, \<open>krn\<close>) and each
  curve taking a pressure (\<open>Sw\<close>, \<open>dSw_dpC\<close>): when the precondition holds
  (\<open>0 <= Swe <= 1\<close>, or \<open>pC >= 0\<close>) the assertion passes and the debug build returns
  what the release build returns; when it does not hold the debug build stops at the
  assertion; the release build returns a number for every input; and no call throws
  an exception in either build. The number can be non-finite: for \<open>pe = 1000\<close>,
  \<open>alpha = 2\<close> the release build returns NaN at \<open>Swe = -1\<close>, and \<open>+inf\<close> at the
  in-domain \<open>Swe = 0\<close>.
\<close>

theorem C5_assertions_only:
  "(\<forall>f \<in> {pC, dpC_dSw, krw, krn}.
      (fle (Fin 0) x \<and> fle x (Fin 1) \<longrightarrow> f Debug params x = f Release params x)
    \<and> (\<not> (fle (Fin 0) x \<and> fle x (Fin 1)) \<longrightarrow> f Debug params x = Inl AssertionFailed)
    \<and> (\<exists>v. f Release params x = Inr v)
    \<and> (\<forall>m. f b params x \<noteq> Inl (InvalidStateException m)))
 \<and> (\<forall>f \<in> {Sw, dSw_dpC}.
      (fge x (Fin 0) \<longrightarrow> f Debug params x = f Release params x)
    \<and> (\<not> fge x (Fin 0) \<longrightarrow> f Debug params x = Inl AssertionFailed)
    \<and> (\<exists>v. f Release params x = Inr v)
    \<and> (\<forall>m. f b params x \<noteq> Inl (InvalidStateException m)))
 \<and> pC Release \<lparr>pe = Fin 1000, alpha = Fin 2\<rparr> (Fin (- 1)) = Inr NaN
 \<and> pC Release \<lparr>pe = Fin 1000, alpha = Fin 2\<rparr> (Fin 0) = Inr PInf"
proof -
  have r1: "pC Release \<lparr>pe = Fin 1000, alpha = Fin 2\<rparr> (Fin (- 1)) = Inr NaN"
    by (simp add: pC_def assert_fails_def fdiv_def fpow_def fmul_def is_zero_def is_inf_def)
  have r2: "pC Release \<lparr>pe = Fin 1000, alpha = Fin 2\<rparr> (Fin 0) = Inr PInf"
    by (simp add: pC_def assert_fails_def fdiv_def fpow_def fmul_def is_zero_def is_inf_def
        inf_of_def)
  show ?thesis
    using r1 r2
    by (simp add: pC_def dpC_dSw_def krw_def krn_def Sw_def dSw_dpC_def assert_fails_def
        Let_def)
qed

text \<open>
  At \<open>pe = 1000\<close>, \<open>alpha = 2\<close>: the in-domain inputs \<open>Swe = 0\<close> and \<open>pC = 0\<close>, and the
  out-of-domain inputs \<open>Swe = -1\<close> and \<open>pC = -1000\<close>.
\<close>

theorem C5_assertions_only_witness:
  "pC Debug \<lparr>pe = Fin 1000, alpha = Fin 2\<rparr> (Fin 0) = Inr PInf
 \<and> pC Release \<lparr>pe = Fin 1000, alpha = Fin 2\<rparr> (Fin 0) = Inr PInf
 \<and> pC Debug \<lparr>pe = Fin 1000, alpha = Fin 2\<rparr> (Fin (- 1)) = Inl AssertionFailed
 \<and> pC Release \<lparr>pe = Fin 1000, alpha = Fin 2\<rparr> (Fin (- 1)) = Inr NaN
 \<and> Sw Debug \<lparr>pe = Fin 1000, alpha = Fin 2\<rparr> (Fin 0) = Inr (Fin 1)
 \<and> Sw Release \<lparr>pe = Fin 1000, alpha = Fin 2\<rparr> (Fin 0) = Inr (Fin 1)
 \<and> Sw Debug \<lparr>pe = Fin 1000, alpha = Fin 2\<rparr> (Fin (- 1000)) = Inl AssertionFailed
 \<and> Sw Release \<lparr>pe = Fin 1000, alpha = Fin 2\<rparr> (Fin (- 1000)) = Inr (Fin 1)"
proof -
  have r3: "Sw Release \<lparr>pe = Fin 1000, alpha = Fin 2\<rparr> (Fin 0) = Inr (Fin 1)"
    by (simp add: Sw_def assert_fails_def fdiv_def fpow_def is_zero_def is_inf_def
        inf_of_def zero_of_def std_min_def std_max_def flt_def)
  have r4: "Sw Release \<lparr>pe = Fin 1000, alpha = Fin 2\<rparr> (Fin (- 1000)) = Inr (Fin 1)"
    by (simp add: Sw_def assert_fails_def fdiv_def fpow_def is_zero_def is_inf_def
        inf_of_def zero_of_def std_min_def std_max_def flt_def)
  have d0: "fle (Fin 0) (Fin 0) \<and> fle (Fin 0) (Fin 1)" "fge (Fin 0) (Fin 0)"
    by (simp_all add: fge_def fle_def)
  have d1: "\<not> (fle (Fin 0) (Fin (- 1)) \<and> fle (Fin (- 1)) (Fin 1))"
    "\<not> fge (Fin (- 1000)) (Fin 0)"
    by (simp_all add: fge_def fle_def)
  show ?thesis
    using C5_assertions_only [of "Fin 0" "\<lparr>pe = Fin 1000, alpha = Fin 2\<rparr>" Debug]
          C5_assertions_only [of "Fin (- 1)" "\<lparr>pe = Fin 1000, alpha = Fin 2\<rparr>" Debug]
          C5_assertions_only [of "Fin (- 1000)" "\<lparr>pe = Fin 1000, alpha = Fin 2\<rparr>" Debug]
          r3 r4 d0 d1
    by simp
qed

section \<open>Fluid system: the density of the gas phase\<close>

text \<open>
  C7. For the gas phase, \<open>phaseDensity\<close> returns \<open>P*M/(R*T)\<close>, where \<open>M\<close> is the mean
  of the molar masses of H2O and N2 weighted by their mole fractions in the gas phase.
  In particular, when \<open>M = 0.02\<close>, \<open>T = 300\<close>, \<open>P = 1e5\<close> and the gas constant is a
  positive number \<open>R\<close>, the result is the number \<open>1e5 * 0.02 / (R * 300)\<close>.
\<close>

theorem C7_gas_density:
  "phaseDensity c gPhaseIdx T P fluidState =
     Inr (fdiv (fmul P (fadd (fmul (moleFrac fluidState gPhaseIdx H2OIdx) (H2O_molarMass c))
                             (fmul (moleFrac fluidState gPhaseIdx N2Idx) (N2_molarMass c))))
               (fmul (IdealGas_R c) T))
 \<and> (fadd (fmul (moleFrac fluidState gPhaseIdx H2OIdx) (H2O_molarMass c))
          (fmul (moleFrac fluidState gPhaseIdx N2Idx) (N2_molarMass c)) = Fin 0.02
      \<and> IdealGas_R c = Fin R \<and> 0 < R
    \<longrightarrow> phaseDensity c gPhaseIdx (Fin 300) (Fin 100000) fluidState
          = Inr (Fin (100000 * 0.02 / (R * 300))))"
  by (simp add: phaseDensity_def IdealGas_density_def lPhaseIdx_def gPhaseIdx_def Let_def
      fmul_Fin fdiv_Fin)

text \<open>
  With mole fractions \<open>1/2\<close>, molar masses \<open>0.018\<close> and \<open>0.022\<close> (mean \<open>0.02\<close>) and
  \<open>R = 8.314472\<close>.
\<close>

theorem C7_gas_density_witness:
  "phaseDensity comp_example gPhaseIdx (Fin 300) (Fin 100000) fs_example
     = Inr (Fin (100000 * 0.02 / (8.314472 * 300)))"
proof -
  have m: "fadd (fmul (moleFrac fs_example gPhaseIdx H2OIdx) (H2O_molarMass comp_example))
                (fmul (moleFrac fs_example gPhaseIdx N2Idx) (N2_molarMass comp_example))
           = Fin 0.02"
    by (simp add: fs_example_def comp_example_def fmul_Fin fadd_def is_inf_def)
  have r: "IdealGas_R comp_example = Fin 8.314472 \<and> (0::real) < 8.314472"
    by (simp add: comp_example_def)
  show ?thesis
    using conjunct2 [OF C7_gas_density
            [of comp_example "Fin 300" "Fin 100000" fs_example "8.314472"]] m r
    by blast
qed

section \<open>Calls: outcomes, purity, determinism\<close>





text \<open>
  The liquid branch of \<open>phaseEnthalpy\<close> is not determined by its arguments: with a
  liquid enthalpy that depends on the temperature, the same call has two outcomes.
\<close>

lemma phaseEnthalpy_liquid_indeterminate:
  "exec env_example (FS_phaseEnthalpy lPhaseIdx (Fin 300) (Fin 100000)) world_example
     (Inr (Number (Fin 1))) world_example
 \<and> exec env_example (FS_phaseEnthalpy lPhaseIdx (Fin 300) (Fin 100000)) world_example
     (Inr (Number (Fin 2))) world_example"
proof -
  have "\<And>v. exec env_example (FS_phaseEnthalpy lPhaseIdx (Fin 300) (Fin 100000)) world_example
          (number (phaseEnthalpy (env_correlations env_example) v (Fin 0) lPhaseIdx (Fin 300)
                     (Fin 100000) (w_fluidState world_example))) world_example"
    by (rule exec.phaseEnthalpy)
  then have "\<And>v. exec env_example (FS_phaseEnthalpy lPhaseIdx (Fin 300) (Fin 100000))
          world_example (Inr (Number v)) world_example"
    by (simp add: phaseEnthalpy_def number_def env_example_def corr_example_def)
  then show ?thesis by blast
qed

section \<open>Fluid system: side effects\<close>




section \<open>Fluid system: the viscosity dispatcher\<close>

text \<open>
  C9, as stated, unlike the other phase dispatchers: it fails. For the phase index 7
  \<open>phaseEnthalpy\<close> takes its gas branch and returns a number, and so does
  \<open>phaseInternalEnergy\<close>: neither reports the invalid index.
\<close>

theorem C9_dispatchers_counterexample:
  "phaseEnthalpy corr_example (Fin 0) (Fin 0) 7 (Fin 300) (Fin 100000) fs_example
     = Inr (Fin 1150000)
 \<and> phaseInternalEnergy comp_example 7 (Fin 300) (Fin 100000) fs_example
     = Inr (Fin (100000 - 8.314472 * 300))"
  by (simp add: phaseEnthalpy_def phaseInternalEnergy_def corr_example_def comp_example_def
      fs_example_def lPhaseIdx_def gPhaseIdx_def H2OIdx_def N2Idx_def Let_def fmul_Fin
      fadd_def fsub_def is_inf_def)

text \<open>
  C9, amended. \<open>phaseViscosity\<close> never throws: for every phase index other than
  \<open>lPhaseIdx\<close> it returns the gas viscosity of N2 at the given temperature and pressure.
  For a phase index outside \<open>{lPhaseIdx, gPhaseIdx}\<close> it differs in that from
  \<open>phaseDensity\<close>, \<open>componentDensity\<close>, \<open>componentPressure\<close> and \<open>diffCoeff\<close>, which
  throw, and it does what \<open>phaseEnthalpy\<close> and \<open>phaseInternalEnergy\<close> do, which take
  their gas branch: \<open>phaseEnthalpy\<close> returns the gas enthalpy, and
  \<open>phaseInternalEnergy\<close> returns \<open>h - R*T\<close> unless the enthalpy call itself throws.
\<close>

theorem C9_phaseViscosity_never_throws:
  "(phaseIdx \<noteq> lPhaseIdx \<longrightarrow>
      phaseViscosity c phaseIdx temperature pressure fluidState
        = Inr (N2_gasViscosity c temperature pressure))
 \<and> (\<forall>e. phaseViscosity c phaseIdx temperature pressure fluidState \<noteq> Inl e)
 \<and> (phaseIdx \<notin> {lPhaseIdx, gPhaseIdx} \<longrightarrow>
      phaseViscosity c phaseIdx temperature pressure fluidState
        = Inr (N2_gasViscosity c temperature pressure)
    \<and> phaseDensity c phaseIdx temperature pressure fluidState
        = Inl (InvalidStateException (InvalidPhaseIndex phaseIdx))
    \<and> componentDensity c k phaseIdx compIdx temperature pressure
        = Inl (InvalidStateException (InvalidPhaseIndex phaseIdx))
    \<and> componentPressure k phaseIdx compIdx temperature density
        = Inl (InvalidStateException (InvalidPhaseIndex phaseIdx))
    \<and> diffCoeff k phaseIdx compIIdx compJIdx temperature pressure fluidState
        = Inl (InvalidStateException
                 (DiffCoeffUndefined (min compIIdx compJIdx) (max compIIdx compJIdx) phaseIdx))
    \<and> phaseEnthalpy k uninit_temperature uninit_pressure phaseIdx temperature pressure
          fluidState
        = Inr (fadd (fadd (Fin 0)
                       (fmul (H2O_gasEnthalpy k temperature (partialPressure fluidState H2OIdx))
                             (massFrac fluidState gPhaseIdx H2OIdx)))
                    (fmul (N2_gasEnthalpy k temperature (partialPressure fluidState N2Idx))
                          (massFrac fluidState gPhaseIdx N2Idx)))
    \<and> phaseInternalEnergy c phaseIdx temperature pressure fluidState
        = (case enthalpy c phaseIdx temperature pressure fluidState of
             Inl e \<Rightarrow> Inl e
           | Inr h \<Rightarrow> Inr (fsub h (fmul (IdealGas_R c) temperature))))"
  by (auto simp: phaseViscosity_def phaseDensity_def componentDensity_def
      componentPressure_def diffCoeff_def phaseEnthalpy_def phaseInternalEnergy_def Let_def
      min_def max_def split: sum.splits)

text \<open>At the phase index 7.\<close>

theorem C9_phaseViscosity_never_throws_witness:
  "phaseViscosity comp_example 7 (Fin 300) (Fin 100000) fs_example = Inr (Fin 0.00002)
 \<and> phaseDensity comp_example 7 (Fin 300) (Fin 100000) fs_example
     = Inl (InvalidStateException (InvalidPhaseIndex 7))
 \<and> componentDensity comp_example corr_example 7 0 (Fin 300) (Fin 100000)
     = Inl (InvalidStateException (InvalidPhaseIndex 7))
 \<and> diffCoeff corr_example 7 1 0 (Fin 300) (Fin 100000) fs_example
     = Inl (InvalidStateException (DiffCoeffUndefined 0 1 7))
 \<and> phaseEnthalpy corr_example (Fin 0) (Fin 0) 7 (Fin 300) (Fin 100000) fs_example
     = Inr (Fin 1150000)"
proof -
  have v: "fadd (fadd (Fin 0)
             (fmul (H2O_gasEnthalpy corr_example (Fin 300) (partialPressure fs_example H2OIdx))
                   (massFrac fs_example gPhaseIdx H2OIdx)))
             (fmul (N2_gasEnthalpy corr_example (Fin 300) (partialPressure fs_example N2Idx))
                   (massFrac fs_example gPhaseIdx N2Idx)) = Fin 1150000"
    by (simp add: corr_example_def fs_example_def fmul_Fin fadd_def is_inf_def)
  have g: "N2_gasViscosity comp_example (Fin 300) (Fin 100000) = Fin 0.00002"
    by (simp add: comp_example_def)
  have i: "(7::int) \<noteq> lPhaseIdx" "(7::int) \<notin> {lPhaseIdx, gPhaseIdx}"
    by (simp_all add: lPhaseIdx_def gPhaseIdx_def)
  show ?thesis
    using C9_phaseViscosity_never_throws
            [of 7 comp_example "Fin 300" "Fin 100000" fs_example corr_example 0 "Fin 100000"
                1 0 "Fin 0" "Fin 0"] v g i
    by simp
qed

section \<open>Fluid system: the internal energy\<close>

text \<open>
  C10. Let \<open>h\<close> be what the enthalpy call returns. For the liquid phase
  \<open>phaseInternalEnergy\<close> returns \<open>h - p*rho\<close>, where \<open>rho\<close> is the density that
  \<open>phaseDensity\<close> returns for the liquid phase (the pressure is multiplied by a density,
  not by a specific volume); for the gas phase it returns \<open>h - R*T\<close>.
\<close>

theorem C10_internal_energy:
  assumes "enthalpy c lPhaseIdx temperature pressure fluidState = Inr hl"
      and "enthalpy c gPhaseIdx temperature pressure fluidState = Inr hg"
  shows "phaseDensity c lPhaseIdx temperature pressure fluidState
           = Inr (H2O_liquidDensity c temperature pressure)
       \<and> phaseInternalEnergy c lPhaseIdx temperature pressure fluidState
           = Inr (fsub hl (fmul pressure (H2O_liquidDensity c temperature pressure)))
       \<and> phaseInternalEnergy c gPhaseIdx temperature pressure fluidState
           = Inr (fsub hg (fmul (IdealGas_R c) temperature))"
  using assms
  by (simp add: phaseInternalEnergy_def phaseDensity_def lPhaseIdx_def gPhaseIdx_def)

text \<open>
  With \<open>h = 1e5\<close>, \<open>p = 1e5\<close>, \<open>rho = 1000\<close>, \<open>R = 8.314472\<close>, \<open>T = 300\<close>:
  \<open>1e5 - 1e5 * 1000\<close> for the liquid and \<open>1e5 - 8.314472 * 300\<close> for the gas.
\<close>

theorem C10_internal_energy_witness:
  "phaseInternalEnergy comp_example lPhaseIdx (Fin 300) (Fin 100000) fs_example
     = Inr (Fin (100000 - 100000 * 1000))
 \<and> phaseInternalEnergy comp_example gPhaseIdx (Fin 300) (Fin 100000) fs_example
     = Inr (Fin (100000 - 8.314472 * 300))"
proof -
  have h: "enthalpy comp_example lPhaseIdx (Fin 300) (Fin 100000) fs_example
             = Inr (Fin 100000)"
          "enthalpy comp_example gPhaseIdx (Fin 300) (Fin 100000) fs_example
             = Inr (Fin 100000)"
    by (simp_all add: comp_example_def)
  have a: "fsub (Fin 100000) (fmul (Fin 100000) (Fin 1000)) = Fin (100000 - 100000 * 1000)"
    by (simp add: fsub_def fadd_def fmul_Fin is_inf_def)
  have b: "fsub (Fin 100000) (fmul (Fin 8.314472) (Fin 300)) = Fin (100000 - 8.314472 * 300)"
    by (simp add: fsub_def fadd_def fmul_Fin is_inf_def)
  have c: "H2O_liquidDensity comp_example (Fin 300) (Fin 100000) = Fin 1000"
          "IdealGas_R comp_example = Fin 8.314472"
    by (simp_all add: comp_example_def)
  show ?thesis
    using C10_internal_energy [OF h] a b
    by (simp only: c)
qed

end
